theory Spec2Isabelle
  imports Main "HOL-Library.Word" "HOL-Library.AList"
begin

section \<open>The container bindings of container\_functions.cpp\<close>

text \<open>
  The source file holds the script bindings of the item container: each binding reads its
  arguments from the script stack, calls the container, the item factory or the game, and
  pushes one value. The model gives every binding its arguments already read (an absent
  optional argument is \<open>None\<close>, a null reference is \<open>None\<close>) and returns the value
  pushed together with everything the call changed.
\<close>

subsection \<open>Machine integers\<close>

type_synonym uint16_t = "16 word"
type_synonym uint32_t = "32 word"
type_synonym int32_t = "32 word"
type_synonym int64_t = "64 word"

subsection \<open>Items and containers\<close>

text \<open>
  Modelled from the spec: the enumeration \<open>ItemAttribute_t\<close> is not in the source
  file. Section 3: the attributes are keyed by kind. The source names
  \<open>ItemAttribute_t::DATE\<close> only; the other enumerators are kept apart by their
  number.
\<close>

datatype ItemAttribute_t = DATE | OTHER_ATTRIBUTE nat

text \<open>
  Modelled from the spec: the cylinder classes are not in the source file. Section 4.1:
  an item is in limbo or owned. What \<open>getParent()\<close> can return is the null pointer,
  the static \<open>VirtualCylinder::virtualCylinder\<close> in which unowned items wait, or
  another cylinder, known by the identity of its object.
\<close>

datatype Cylinder = NullCylinder | VirtualCylinder | CylinderAt nat

text \<open>
  Modelled from the spec: the class \<open>Item\<close> is not in the source file. Section 3: an
  item has a catalog id, a count, one owner and a mapping of attributes. \<open>uid\<close> is
  the identity of the object (two references are to the same item when their \<open>uid\<close>
  agree).
\<close>

record ItemBase =
  uid :: nat
  itemId :: uint16_t
  itemCount :: uint16_t
  parent :: Cylinder
  attributes :: "(ItemAttribute_t \<times> int64_t) list"

text \<open>
  Modelled from the spec: the class \<open>Container\<close> is not in the source file. Section
  3: a container is an item with an ordered sequence of slots. The fields are the values
  its getters give (\<open>capacity()\<close>, \<open>getMaxCapacity()\<close>, \<open>getCorpseOwner()\<close>),
  the slot sequence and the reward flag that \<open>setRewardCorpse()\<close> sets. Nesting is
  by value, so a container never holds itself.
\<close>

datatype Container =
  Container (base: ItemBase) (capacity: uint32_t) (getMaxCapacity: uint32_t)
    (itemlist: "Item list") (isRewardCorpse: bool) (getCorpseOwner: uint32_t)
and Item =
  PlainItem ItemBase
| ContainerItem Container

fun getContainer :: "Item \<Rightarrow> Container option" where
  "getContainer (PlainItem b) = None"
| "getContainer (ContainerItem c) = Some c"

fun itemBase :: "Item \<Rightarrow> ItemBase" where
  "itemBase (PlainItem b) = b"
| "itemBase (ContainerItem c) = base c"

definition getParent :: "Item \<Rightarrow> Cylinder" where
  "getParent item = parent (itemBase item)"

text \<open>
  Modelled from the spec: \<open>Container::size\<close> is not in the source file. Section 3:
  the number of items in the slots, not recursive.
\<close>

definition size_c :: "Container \<Rightarrow> nat" where
  "size_c c = length (itemlist c)"

text \<open>
  Modelled from the spec: \<open>ContainerIterator\<close> is not in the source file. Section 4.4:
  each top-level slot in index order, and whenever a visited item is itself a container
  its contents are visited, depth first and in pre-order, before the next sibling.
\<close>

fun iterator :: "Container \<Rightarrow> Item list"
and visit :: "Item \<Rightarrow> Item list" where
  "iterator (Container b cap mx xs rw co) = concat (map visit xs)"
| "visit (PlainItem b) = [PlainItem b]"
| "visit (ContainerItem c) = ContainerItem c # iterator c"

text \<open>
  Modelled from the spec: \<open>Container::getItems\<close> is not in the source file. Section
  4.2: a sequence of item references, top-level only unless \<open>recursive\<close>, when it is
  the sequence of the recursive iterator.
\<close>

definition getItems :: "Container \<Rightarrow> bool \<Rightarrow> Item list" where
  "getItems c recursive = (if recursive then iterator c else itemlist c)"

subsection \<open>Script values\<close>

text \<open>
  The values a binding pushes: nil, a boolean, a number (the bindings push integers
  only), a string, a userdata holding an item, or a table made by \<open>lua_rawseti\<close>.
\<close>

datatype lua_value =
  LuaNil
| LuaBoolean bool
| LuaNumber int
| LuaString string
| LuaUserdata Item
| LuaTable "(int \<times> lua_value) list"

text \<open>\<open>getBoolean(L, arg, default)\<close> and \<open>getNumber<T>(L, arg, default)\<close>.\<close>

definition getBoolean :: "bool option \<Rightarrow> bool \<Rightarrow> bool" where
  "getBoolean arg dflt = (case arg of None \<Rightarrow> dflt | Some b \<Rightarrow> b)"

definition getNumber :: "'a option \<Rightarrow> 'a \<Rightarrow> 'a" where
  "getNumber arg dflt = (case arg of None \<Rightarrow> dflt | Some n \<Rightarrow> n)"

text \<open>\<open>lua_rawseti(L, -2, index)\<close>: the table gets the value at the integer key.\<close>

definition lua_rawseti :: "(int \<times> lua_value) list \<Rightarrow> int \<Rightarrow> lua_value \<Rightarrow> (int \<times> lua_value) list" where
  "lua_rawseti t index v = AList.update index v t"

subsection \<open>Queries\<close>

definition luaContainerGetSize :: "Container option \<Rightarrow> lua_value" where
  "luaContainerGetSize container =
     (case container of
        Some c \<Rightarrow> LuaNumber (int (size_c c))
      | None \<Rightarrow> LuaNil)"

definition luaContainerGetMaxCapacity :: "Container option \<Rightarrow> lua_value" where
  "luaContainerGetMaxCapacity container =
     (case container of
        Some c \<Rightarrow> LuaNumber (uint (getMaxCapacity c))
      | None \<Rightarrow> LuaNil)"

definition luaContainerGetCapacity :: "Container option \<Rightarrow> lua_value" where
  "luaContainerGetCapacity container =
     (case container of
        Some c \<Rightarrow> LuaNumber (uint (capacity c))
      | None \<Rightarrow> LuaNil)"

text \<open>
  The loop of \<open>luaContainerGetEmptySlots\<close> over the iterator: \<open>slots\<close> is a
  \<open>uint32_t\<close>, so every addition and subtraction wraps at \<open>2 ^ 32\<close>.
\<close>

fun emptySlotsLoop :: "uint32_t \<Rightarrow> Item list \<Rightarrow> uint32_t" where
  "emptySlotsLoop slots [] = slots"
| "emptySlotsLoop slots (it # rest) =
     (case getContainer it of
        Some tmpContainer \<Rightarrow>
          emptySlotsLoop (slots + (capacity tmpContainer - of_nat (size_c tmpContainer))) rest
      | None \<Rightarrow> emptySlotsLoop slots rest)"

definition luaContainerGetEmptySlots :: "Container option \<Rightarrow> bool option \<Rightarrow> lua_value" where
  "luaContainerGetEmptySlots container arg2 =
     (case container of
        None \<Rightarrow> LuaNil
      | Some c \<Rightarrow>
          let slots = capacity c - of_nat (size_c c);
              recursive = getBoolean arg2 False;
              slots = (if recursive then emptySlotsLoop slots (iterator c) else slots)
          in LuaNumber (uint slots))"

text \<open>
  The loop of \<open>luaContainerGetItems\<close>: \<open>index\<close> is incremented before each item is
  stored.
\<close>

fun getItemsLoop :: "(int \<times> lua_value) list \<Rightarrow> int \<Rightarrow> Item list \<Rightarrow> (int \<times> lua_value) list" where
  "getItemsLoop t index [] = t"
| "getItemsLoop t index (item # rest) =
     getItemsLoop (lua_rawseti t (index + 1) (LuaUserdata item)) (index + 1) rest"

definition luaContainerGetItems :: "Container option \<Rightarrow> bool option \<Rightarrow> lua_value" where
  "luaContainerGetItems container arg2 =
     (case container of
        None \<Rightarrow> LuaNil
      | Some c \<Rightarrow>
          let recursive = getBoolean arg2 False;
              items = getItems c recursive
          in LuaTable (getItemsLoop [] 0 items))"

subsection \<open>Collaborators that are not in the source file\<close>

text \<open>
  Modelled from the spec: the class \<open>ItemType\<close> is not in the source file. Section 6:
  the catalog entry of an item type says whether it is stackable and gives its
  \<open>stackSize\<close>, a 16-bit number; these are the fields \<open>luaContainerAddItem\<close>
  reads.
\<close>

record ItemType =
  stackable :: bool
  stackSize :: uint16_t

text \<open>
  Modelled from the spec: the enumeration \<open>ReturnValue\<close> is not in the source file.
  The source names \<open>RETURNVALUE_NOERROR\<close> only; the error kinds are those of section
  7, and every other enumerator is kept apart by its number.
\<close>

datatype ReturnValue =
  RETURNVALUE_NOERROR
| AlreadyOwned
| CyclicContainment
| ContainerFull
| InvalidIndex
| OTHER_RETURNVALUE nat

text \<open>
  The bindings call the catalog (\<open>Item::items\<close>), the item factory
  (\<open>Item::CreateItem\<close>, which gives a null pointer when it fails), the game's insertion
  (\<open>g_game().internalAddItem\<close>), the script environment and further container methods.
  None of them is in the source file and the bindings are modelled for any of them: they
  are the fields of \<open>env\<close>. An insertion gives its return value, the container after
  it and the item after it. \<open>timeMs n\<close> is what the clock shows when it is read for the
  \<open>n\<close>-th time.
\<close>

record env =
  items :: "uint16_t \<Rightarrow> ItemType"
  getItemIdByName :: "string \<Rightarrow> uint16_t"
  CreateItem :: "uint16_t \<Rightarrow> uint32_t option \<Rightarrow> Item option"
  internalAddItem :: "Container \<Rightarrow> Item \<Rightarrow> int32_t \<Rightarrow> uint32_t \<Rightarrow> ReturnValue \<times> Container \<times> Item"
  getReturnMessage :: "ReturnValue \<Rightarrow> string"
  returnValueNumber :: "ReturnValue \<Rightarrow> int"
  INDEX_WHEREEVER :: int32_t
  ITEM_REWARD_CONTAINER :: uint16_t
  timeMs :: "nat \<Rightarrow> int64_t"
  getContainerByUID :: "uint32_t \<Rightarrow> Container option"
  getItemHoldingCount :: "Container \<Rightarrow> uint32_t"
  getItemByIndex :: "Container \<Rightarrow> uint32_t \<Rightarrow> Item option"
  isHoldingItem :: "Container \<Rightarrow> Item option \<Rightarrow> bool"
  getItemTypeCount :: "Container \<Rightarrow> uint16_t \<Rightarrow> int32_t \<Rightarrow> uint32_t"
  getContentDescription :: "Container \<Rightarrow> bool \<Rightarrow> string"

text \<open>
  What a binding can change besides the objects it is given: the error reports made with
  \<open>reportErrorFunc\<close>, in order, the temporary items of the script environment (by
  identity), and the number of times the clock has been read.
\<close>

record world =
  reported :: "string list"
  tempItems :: "nat list"
  clockReads :: nat

definition reportErrorFunc :: "string \<Rightarrow> world \<Rightarrow> world" where
  "reportErrorFunc msg w = w\<lparr>reported := reported w @ [msg]\<rparr>"

definition getTimeMsNow :: "env \<Rightarrow> world \<Rightarrow> int64_t \<times> world" where
  "getTimeMsNow e w = (timeMs e (clockReads w), w\<lparr>clockReads := Suc (clockReads w)\<rparr>)"

text \<open>
  Modelled from the spec: \<open>ScriptEnvironment::removeTempItem\<close> is not in the source
  file, and the spec does not describe the store. It is taken as the list of the
  identities of the items the script holds temporarily; removing an item leaves no entry
  of it.
\<close>

definition removeTempItem :: "Item \<Rightarrow> world \<Rightarrow> world" where
  "removeTempItem item w = w\<lparr>tempItems := removeAll (uid (itemBase item)) (tempItems w)\<rparr>"

text \<open>
  Modelled from the spec: \<open>Item::setAttribute\<close>, \<open>Item::setParent\<close>,
  \<open>Container::internalAddThing\<close> and \<open>Container::setRewardCorpse\<close> are not in the
  source file. Section 3: the attributes are a mapping from key to value, and the reward
  flag marks the container. Section 4.5: the reward item becomes a nested item of the
  container; the call has no result in the source, so it is the placement itself: the
  item takes the first slot and the container becomes its parent.
\<close>

definition setAttributeBase :: "ItemBase \<Rightarrow> ItemAttribute_t \<Rightarrow> int64_t \<Rightarrow> ItemBase" where
  "setAttributeBase b k v = b\<lparr>attributes := AList.update k v (attributes b)\<rparr>"

fun setAttributeContainer :: "Container \<Rightarrow> ItemAttribute_t \<Rightarrow> int64_t \<Rightarrow> Container" where
  "setAttributeContainer (Container b cap mx xs rw co) k v =
     Container (setAttributeBase b k v) cap mx xs rw co"

fun setAttribute :: "Item \<Rightarrow> ItemAttribute_t \<Rightarrow> int64_t \<Rightarrow> Item" where
  "setAttribute (PlainItem b) k v = PlainItem (setAttributeBase b k v)"
| "setAttribute (ContainerItem c) k v = ContainerItem (setAttributeContainer c k v)"


fun setParent :: "Item \<Rightarrow> Cylinder \<Rightarrow> Item" where
  "setParent (PlainItem b) p = PlainItem (b\<lparr>parent := p\<rparr>)"
| "setParent (ContainerItem (Container b cap mx xs rw co)) p =
     ContainerItem (Container (b\<lparr>parent := p\<rparr>) cap mx xs rw co)"

fun internalAddThing :: "Container \<Rightarrow> Item \<Rightarrow> Container" where
  "internalAddThing (Container b cap mx xs rw co) thing =
     Container b cap mx (setParent thing (CylinderAt (uid b)) # xs) rw co"

fun setRewardCorpse :: "Container \<Rightarrow> Container" where
  "setRewardCorpse (Container b cap mx xs rw co) = Container b cap mx xs True co"

subsection \<open>Queries that go through the collaborators\<close>

definition luaContainerCreate :: "env \<Rightarrow> uint32_t \<Rightarrow> lua_value" where
  "luaContainerCreate e uid_arg =
     (case getContainerByUID e uid_arg of
        Some c \<Rightarrow> LuaUserdata (ContainerItem c)
      | None \<Rightarrow> LuaNil)"

definition luaContainerGetItemHoldingCount :: "env \<Rightarrow> Container option \<Rightarrow> lua_value" where
  "luaContainerGetItemHoldingCount e container =
     (case container of
        Some c \<Rightarrow> LuaNumber (uint (getItemHoldingCount e c))
      | None \<Rightarrow> LuaNil)"

definition luaContainerGetItem :: "env \<Rightarrow> Container option \<Rightarrow> uint32_t \<Rightarrow> lua_value" where
  "luaContainerGetItem e container index =
     (case container of
        None \<Rightarrow> LuaNil
      | Some c \<Rightarrow>
          (case getItemByIndex e c index of
             Some item \<Rightarrow> LuaUserdata item
           | None \<Rightarrow> LuaNil))"

definition luaContainerHasItem :: "env \<Rightarrow> Container option \<Rightarrow> Item option \<Rightarrow> lua_value" where
  "luaContainerHasItem e container item =
     (case container of
        Some c \<Rightarrow> LuaBoolean (isHoldingItem e c item)
      | None \<Rightarrow> LuaNil)"

definition luaContainerGetCorpseOwner :: "Container option \<Rightarrow> lua_value" where
  "luaContainerGetCorpseOwner container =
     (case container of
        Some c \<Rightarrow> LuaNumber (uint (getCorpseOwner c))
      | None \<Rightarrow> LuaNil)"

text \<open>
  The second argument of \<open>addItem\<close> and \<open>getItemCountById\<close>: a number, read as an
  item id, or else a string, read as an item name.
\<close>

datatype item_arg = ItemNumber uint16_t | ItemName string

fun isNumber :: "item_arg \<Rightarrow> bool" where
  "isNumber (ItemNumber n) = True"
| "isNumber (ItemName s) = False"

text \<open>
  The item id both bindings read from the second argument: the number itself, or the id
  the catalog has for the name (0 when it has none).
\<close>

fun readItemId :: "env \<Rightarrow> item_arg \<Rightarrow> uint16_t" where
  "readItemId e (ItemNumber n) = n"
| "readItemId e (ItemName s) = getItemIdByName e s"

definition luaContainerGetItemCountById ::
  "env \<Rightarrow> Container option \<Rightarrow> item_arg \<Rightarrow> int32_t option \<Rightarrow> lua_value" where
  "luaContainerGetItemCountById e container arg2 arg3 =
     (case container of
        None \<Rightarrow> LuaNil
      | Some c \<Rightarrow>
          let itemId = readItemId e arg2
          in if \<not> isNumber arg2 \<and> itemId = 0
             then LuaNil
             else
               let subType = getNumber arg3 (- 1)
               in LuaNumber (uint (getItemTypeCount e c itemId subType)))"

definition luaContainerGetContentDescription ::
  "env \<Rightarrow> Container option \<Rightarrow> bool option \<Rightarrow> lua_value" where
  "luaContainerGetContentDescription e container arg2 =
     (case container of
        Some c \<Rightarrow> LuaString (getContentDescription e c (getBoolean arg2 False))
      | None \<Rightarrow> LuaNil)"

subsection \<open>Insertions\<close>

text \<open>
  The count \<open>luaContainerAddItem\<close> hands to the factory (lines 149 to 151). The count
  read is a \<open>uint32_t\<close>; for a stackable type it becomes
  \<open>std::min<uint16_t>(count, it.stackSize)\<close>, which converts both arguments to
  \<open>uint16_t\<close> before it compares them.
\<close>

definition stackCount :: "ItemType \<Rightarrow> uint32_t \<Rightarrow> uint32_t" where
  "stackCount it count =
     (if stackable it then ucast (min (ucast count :: uint16_t) (stackSize it)) else count)"

text \<open>
  \<open>luaContainerAddItem\<close>. The result is the value pushed, the container after the call
  and the world after it.
\<close>

definition luaContainerAddItem ::
  "env \<Rightarrow> Container option \<Rightarrow> item_arg \<Rightarrow> uint32_t option \<Rightarrow> int32_t option \<Rightarrow> uint32_t option
    \<Rightarrow> world \<Rightarrow> lua_value \<times> Container option \<times> world" where
  "luaContainerAddItem e container arg2 arg3 arg4 arg5 w =
     (case container of
        None \<Rightarrow> (LuaNil, None, reportErrorFunc ''Container is nullptr'' w)
      | Some c \<Rightarrow>
          let itemId = readItemId e arg2
          in if \<not> isNumber arg2 \<and> itemId = 0
             then (LuaNil, Some c, reportErrorFunc ''Item id is wrong'' w)
             else
               let count = getNumber arg3 1;
                   it = items e itemId;
                   count = stackCount it count
               in (case CreateItem e itemId (Some count) of
                     None \<Rightarrow> (LuaNil, Some c, reportErrorFunc ''Item is nullptr'' w)
                   | Some item \<Rightarrow>
                       let index = getNumber arg4 (INDEX_WHEREEVER e);
                           flags = getNumber arg5 0;
                           (ret, c', item') = internalAddItem e c item index flags
                       in if ret = RETURNVALUE_NOERROR
                          then (LuaUserdata item', Some c', w)
                          else (LuaBoolean False, Some c',
                                reportErrorFunc
                                  (''Cannot add item to container, error code: '' @ [CHR 0x27]
                                     @ getReturnMessage e ret @ [CHR 0x27]) w)))"

text \<open>
  \<open>luaContainerAddItemEx\<close>. The item is read first. The result is the value pushed,
  the container after the call, the item after the call and the world after it.
\<close>

definition luaContainerAddItemEx ::
  "env \<Rightarrow> Container option \<Rightarrow> Item option \<Rightarrow> int32_t option \<Rightarrow> uint32_t option
    \<Rightarrow> world \<Rightarrow> lua_value \<times> Container option \<times> Item option \<times> world" where
  "luaContainerAddItemEx e container arg2 arg3 arg4 w =
     (case arg2 of
        None \<Rightarrow> (LuaNil, container, None, w)
      | Some item \<Rightarrow>
          (case container of
             None \<Rightarrow> (LuaNil, None, Some item, w)
           | Some c \<Rightarrow>
               if getParent item \<noteq> VirtualCylinder
               then (LuaNil, Some c, Some item, reportErrorFunc ''Item already has a parent'' w)
               else
                 let index = getNumber arg3 (INDEX_WHEREEVER e);
                     flags = getNumber arg4 0;
                     (ret, c', item') = internalAddItem e c item index flags;
                     w' = (if ret = RETURNVALUE_NOERROR then removeTempItem item w else w)
                 in (LuaNumber (returnValueNumber e ret), Some c', Some item', w')))"

subsection \<open>Reward registration\<close>

text \<open>
  \<open>luaContainerRegisterReward\<close>. The source uses the factory's result without a check,
  so a null result is a fault of the call. The result is the value pushed, the container
  after the call and the world after it.
\<close>

datatype fault = NullPointerDereference

definition luaContainerRegisterReward ::
  "env \<Rightarrow> Container option \<Rightarrow> world \<Rightarrow> fault + lua_value \<times> Container option \<times> world" where
  "luaContainerRegisterReward e container w =
     (case container of
        None \<Rightarrow> Inr (LuaNil, None, w)
      | Some c \<Rightarrow>
          let (rewardId, w1) = getTimeMsNow e w
          in (case CreateItem e (ITEM_REWARD_CONTAINER e) None of
                None \<Rightarrow> Inl NullPointerDereference
              | Some rewardContainer \<Rightarrow>
                  let rewardContainer = setAttribute rewardContainer DATE rewardId;
                      c1 = setAttributeContainer c DATE rewardId;
                      c2 = internalAddThing c1 rewardContainer;
                      c3 = setRewardCorpse c2
                  in Inr (LuaBoolean True, Some c3, w1)))"

subsection \<open>A concrete game for the examples\<close>

text \<open>
  Modelled from the spec: \<open>Item::CreateItem\<close> is not in the source file. Section 6:
  the factory makes a new item or container for an id and a count, in limbo custody, or
  fails. Here it fails for the id 0 (the catalog's "not found"), an absent count is 0,
  the count is narrowed to the item's 16 bits, and a type with a base capacity gives an
  empty container. \<open>fresh\<close> is the identity of the new object.
\<close>

definition createItemSpec ::
  "nat \<Rightarrow> (uint16_t \<Rightarrow> uint32_t option) \<Rightarrow> uint16_t \<Rightarrow> uint32_t option \<Rightarrow> Item option" where
  "createItemSpec fresh baseCapacity type count =
     (if type = 0 then None
      else
        let b = \<lparr>uid = fresh, itemId = type, itemCount = ucast (getNumber count 0),
                 parent = VirtualCylinder, attributes = []\<rparr>
        in (case baseCapacity type of
              None \<Rightarrow> Some (PlainItem b)
            | Some cap \<Rightarrow> Some (ContainerItem (Container b cap cap [] False 0))))"

text \<open>
  Modelled from the spec: \<open>Game::internalAddItem\<close> is not in the source file. Section
  4.3, for the index "wherever", no flags and no stack to merge into: an item that is
  not in limbo is refused as already owned, a container whose slots are all in use is
  full, and neither changes anything; otherwise the item takes the next slot and the
  container becomes its parent.
\<close>

fun appendItem :: "Container \<Rightarrow> Item \<Rightarrow> Container" where
  "appendItem (Container b cap mx xs rw co) item = Container b cap mx (xs @ [item]) rw co"

definition insertSpec ::
  "Container \<Rightarrow> Item \<Rightarrow> int32_t \<Rightarrow> uint32_t \<Rightarrow> ReturnValue \<times> Container \<times> Item" where
  "insertSpec c item index flags =
     (if getParent item \<noteq> VirtualCylinder then (AlreadyOwned, c, item)
      else if unat (capacity c) \<le> size_c c then (ContainerFull, c, item)
      else
        let item' = setParent item (CylinderAt (uid (base c)))
        in (RETURNVALUE_NOERROR, appendItem c item', item'))"

fun returnMessageSpec :: "ReturnValue \<Rightarrow> string" where
  "returnMessageSpec RETURNVALUE_NOERROR = ''No error''"
| "returnMessageSpec AlreadyOwned = ''AlreadyOwned''"
| "returnMessageSpec CyclicContainment = ''CyclicContainment''"
| "returnMessageSpec ContainerFull = ''ContainerFull''"
| "returnMessageSpec InvalidIndex = ''InvalidIndex''"
| "returnMessageSpec (OTHER_RETURNVALUE n) = ''Other''"

fun returnNumberSpec :: "ReturnValue \<Rightarrow> int" where
  "returnNumberSpec RETURNVALUE_NOERROR = 0"
| "returnNumberSpec AlreadyOwned = 1"
| "returnNumberSpec CyclicContainment = 2"
| "returnNumberSpec ContainerFull = 3"
| "returnNumberSpec InvalidIndex = 4"
| "returnNumberSpec (OTHER_RETURNVALUE n) = 5 + int n"

text \<open>
  The game of the examples: every item type is stackable up to 100, except the types 1
  and 2, which are containers of 8 slots; type 2 is the reward container; "gold coin" is
  the only name the catalog knows; the clock shows 1000, 1001, ...; new objects get the
  identity 7.
\<close>

definition exampleCapacity :: "uint16_t \<Rightarrow> uint32_t option" where
  "exampleCapacity type = (if type = 1 \<or> type = 2 then Some 8 else None)"

definition exampleGame :: env where
  "exampleGame =
     \<lparr>items = (\<lambda>type. \<lparr>stackable = (type \<noteq> 1 \<and> type \<noteq> 2), stackSize = 100\<rparr>),
      getItemIdByName = (\<lambda>name. if name = ''gold coin'' then 3031 else 0),
      CreateItem = createItemSpec 7 exampleCapacity,
      internalAddItem = insertSpec,
      getReturnMessage = returnMessageSpec,
      returnValueNumber = returnNumberSpec,
      INDEX_WHEREEVER = - 1,
      ITEM_REWARD_CONTAINER = 2,
      timeMs = (\<lambda>n. 1000 + of_nat n),
      getContainerByUID = (\<lambda>u. None),
      getItemHoldingCount = (\<lambda>c. of_nat (length (iterator c))),
      getItemByIndex = (\<lambda>c i. if unat i < size_c c then Some (itemlist c ! unat i) else None),
      isHoldingItem = (\<lambda>c item. case item of None \<Rightarrow> False
                                 | Some i \<Rightarrow> uid (itemBase i) \<in> uid ` itemBase ` set (iterator c)),
      getItemTypeCount = (\<lambda>c type subType. 0),
      getContentDescription = (\<lambda>c oldProtocol. ''nothing'')\<rparr>"

text \<open>
  The objects of the examples: a coin stack, an empty bag of 8 slots, a pouch of 3 slots
  that holds two coin stacks, a chest of 2 slots that holds one coin stack and the pouch
  (so it is full), and a world with no error reported, the item 5 as a temporary item
  and an unread clock.
\<close>

definition coin :: "nat \<Rightarrow> uint16_t \<Rightarrow> Cylinder \<Rightarrow> Item" where
  "coin u n p = PlainItem \<lparr>uid = u, itemId = 3031, itemCount = n, parent = p, attributes = []\<rparr>"

definition emptyBag :: Container where
  "emptyBag =
     Container \<lparr>uid = 1, itemId = 1, itemCount = 1, parent = CylinderAt 0, attributes = []\<rparr>
       8 8 [] False 0"

definition pouch :: Container where
  "pouch =
     Container \<lparr>uid = 20, itemId = 1, itemCount = 1, parent = CylinderAt 10, attributes = []\<rparr>
       3 3 [coin 21 5 (CylinderAt 20), coin 22 7 (CylinderAt 20)] False 0"

definition chest :: Container where
  "chest =
     Container \<lparr>uid = 10, itemId = 1, itemCount = 1, parent = CylinderAt 0, attributes = []\<rparr>
       2 2 [coin 11 50 (CylinderAt 10), ContainerItem pouch] False 0"

definition exampleWorld :: world where
  "exampleWorld = \<lparr>reported = [], tempItems = [5], clockReads = 0\<rparr>"

text \<open>
  The result of \<open>luaContainerAddItem\<close> written out for a call whose container is
  \<open>c\<close>, whose item id is \<open>type\<close> and whose factory is asked for the count \<open>k\<close>: nil
  and "Item is nullptr" when the factory gives nothing; otherwise the one insertion of the
  item made, a userdata on no-error and false with a report on any other return value.
\<close>

abbreviation addItemOutcome ::
  "env \<Rightarrow> Container \<Rightarrow> uint16_t \<Rightarrow> uint32_t \<Rightarrow> int32_t option \<Rightarrow> uint32_t option
    \<Rightarrow> world \<Rightarrow> lua_value \<times> Container option \<times> world" where
  "addItemOutcome e c type k arg4 arg5 w \<equiv>
     (case CreateItem e type (Some k) of
        None \<Rightarrow> (LuaNil, Some c, w\<lparr>reported := reported w @ [''Item is nullptr'']\<rparr>)
      | Some item \<Rightarrow>
          (case internalAddItem e c item (getNumber arg4 (INDEX_WHEREEVER e)) (getNumber arg5 0) of
             (ret, c', item') \<Rightarrow>
               if ret = RETURNVALUE_NOERROR
               then (LuaUserdata item', Some c', w)
               else (LuaBoolean False, Some c',
                     w\<lparr>reported := reported w @
                        [''Cannot add item to container, error code: '' @ [CHR 0x27]
                           @ getReturnMessage e ret @ [CHR 0x27]]\<rparr>)))"





section \<open>Properties\<close>

subsection \<open>Empty slots\<close>

lemma emptySlotsLoop_sum:
  "emptySlotsLoop slots xs =
     slots + sum_list (map (\<lambda>t. capacity t - of_nat (size_c t)) (List.map_filter getContainer xs))"
  by (induction xs arbitrary: slots) (auto split: option.splits)

text \<open>
  C5. For a container that is not null, \<open>getEmptySlots\<close> pushes
  \<open>capacity() - size()\<close> of the container, and when \<open>recursive\<close> is true it adds
  \<open>capacity() - size()\<close> of every container among the items the recursive iterator
  visits. The arithmetic is that of the \<open>uint32_t\<close> variable \<open>slots\<close>.
\<close>

theorem getEmptySlots_correct:
  "luaContainerGetEmptySlots (Some c) arg2 =
     LuaNumber (uint ((capacity c - of_nat (size_c c)) +
       (if getBoolean arg2 False
        then sum_list (map (\<lambda>t. capacity t - of_nat (size_c t))
                        (List.map_filter getContainer (iterator c)))
        else 0)))"
  by (simp add: luaContainerGetEmptySlots_def emptySlotsLoop_sum Let_def)

subsection \<open>The table of items\<close>

lemma rawseti_fresh:
  "k \<notin> fst ` set t \<Longrightarrow> lua_rawseti t k v = t @ [(k, v)]"
  by (induction t) (auto simp: lua_rawseti_def)

lemma getItemsLoop_zip:
  "\<forall>k \<in> fst ` set t. k \<le> index \<Longrightarrow>
   getItemsLoop t index xs =
     t @ zip [index + 1 .. index + int (length xs)] (map LuaUserdata xs)"
proof (induction xs arbitrary: t index)
  case Nil
  then show ?case by simp
next
  case (Cons x xs)
  have fresh: "index + 1 \<notin> fst ` set t"
    using Cons.prems by force
  have bound: "\<forall>k \<in> fst ` set (t @ [(index + 1, LuaUserdata x)]). k \<le> index + 1"
    using Cons.prems by force
  have "[index + 1 .. index + int (length (x # xs))] =
          (index + 1) # [index + 1 + 1 .. index + 1 + int (length xs)]"
    by (simp add: upto_rec1 algebra_simps)
  then show ?case
    using Cons.IH [OF bound] by (simp add: rawseti_fresh [OF fresh])
qed

text \<open>
  C10. For a container that is not null, \<open>getItems\<close> pushes a table that holds exactly
  the items of the sequence \<open>container->getItems(recursive)\<close>, at the keys 1, 2, ...,
  n, in the order of the sequence.
\<close>

theorem getItems_table:
  "luaContainerGetItems (Some c) arg2 =
     LuaTable (zip [1 .. int (length (getItems c (getBoolean arg2 False)))]
                 (map LuaUserdata (getItems c (getBoolean arg2 False))))"
  using getItemsLoop_zip [of "[]" 0] by (simp add: luaContainerGetItems_def Let_def)

subsection \<open>Reward registration\<close>







text \<open>
  The source does not check what the factory gives: without a reward item the call
  faults when it stamps the item.
\<close>

lemma registerReward_factory_fails:
  "CreateItem e (ITEM_REWARD_CONTAINER e) None = None \<Longrightarrow>
   luaContainerRegisterReward e (Some c) w = Inl NullPointerDereference"
  by (simp add: luaContainerRegisterReward_def getTimeMsNow_def)




subsection \<open>Inserting an item the script already holds\<close>

text \<open>
  C3. For a container and an item that are not null, \<open>addItemEx\<close> refuses an item whose
  parent is not the virtual cylinder: it reports "Item already has a parent", pushes nil
  and leaves the container, the item and the temporary items as they are, whatever the
  game's insertion would do. Only an item whose parent is the virtual cylinder is handed
  to the game's insertion.
\<close>

theorem addItemEx_already_owned:
  "(getParent item \<noteq> VirtualCylinder \<longrightarrow>
      luaContainerAddItemEx e (Some c) (Some item) arg3 arg4 w =
        (LuaNil, Some c, Some item, reportErrorFunc ''Item already has a parent'' w))
   \<and> (getParent item = VirtualCylinder \<longrightarrow>
      luaContainerAddItemEx e (Some c) (Some item) arg3 arg4 w =
        (case internalAddItem e c item (getNumber arg3 (INDEX_WHEREEVER e)) (getNumber arg4 0) of
           (ret, c', item') \<Rightarrow>
             (LuaNumber (returnValueNumber e ret), Some c', Some item',
              if ret = RETURNVALUE_NOERROR then removeTempItem item w else w)))"
  by (simp add: luaContainerAddItemEx_def Let_def split: prod.splits)

theorem addItemEx_already_owned_witness:
  "getParent (coin 5 30 (CylinderAt 10)) \<noteq> VirtualCylinder
   \<and> luaContainerAddItemEx exampleGame (Some emptyBag) (Some (coin 5 30 (CylinderAt 10)))
         None None exampleWorld =
       (LuaNil, Some emptyBag, Some (coin 5 30 (CylinderAt 10)),
        \<lparr>reported = [''Item already has a parent''], tempItems = [5], clockReads = 0\<rparr>)
   \<and> getParent (coin 5 30 VirtualCylinder) = VirtualCylinder
   \<and> luaContainerAddItemEx exampleGame (Some emptyBag) (Some (coin 5 30 VirtualCylinder))
         None None exampleWorld =
       (LuaNumber 0, Some (appendItem emptyBag (coin 5 30 (CylinderAt 1))),
        Some (coin 5 30 (CylinderAt 1)),
        \<lparr>reported = [], tempItems = [], clockReads = 0\<rparr>)"
proof -
  have owned: "getParent (coin 5 30 (CylinderAt 10)) \<noteq> VirtualCylinder"
    by (simp add: getParent_def coin_def)
  have limbo: "getParent (coin 5 30 VirtualCylinder) = VirtualCylinder"
    by (simp add: getParent_def coin_def)
  have inserted:
    "internalAddItem exampleGame emptyBag (coin 5 30 VirtualCylinder)
       (getNumber None (INDEX_WHEREEVER exampleGame)) (getNumber None 0) =
     (RETURNVALUE_NOERROR, appendItem emptyBag (coin 5 30 (CylinderAt 1)),
      coin 5 30 (CylinderAt 1))"
    by (simp add: exampleGame_def insertSpec_def getParent_def coin_def emptyBag_def size_c_def
        Let_def)
  show ?thesis
    using owned limbo inserted
      addItemEx_already_owned [of "coin 5 30 (CylinderAt 10)" exampleGame emptyBag None None
        exampleWorld]
      addItemEx_already_owned [of "coin 5 30 VirtualCylinder" exampleGame emptyBag None None
        exampleWorld]
    by (simp add: reportErrorFunc_def removeTempItem_def exampleWorld_def exampleGame_def
        coin_def)
qed

text \<open>
  C9. For a container that is not null and an item that is not null and in limbo,
  \<open>addItemEx\<close> pushes the number of the insertion's return value, whether it is
  no-error or an error, and the item leaves the temporary items of the script
  environment exactly when the return value is no-error.
\<close>

theorem addItemEx_return_value:
  assumes limbo: "getParent item = VirtualCylinder"
    and inserted:
      "internalAddItem e c item (getNumber arg3 (INDEX_WHEREEVER e)) (getNumber arg4 0) =
         (ret, c', item')"
  shows "luaContainerAddItemEx e (Some c) (Some item) arg3 arg4 w =
           (LuaNumber (returnValueNumber e ret), Some c', Some item',
            w\<lparr>tempItems :=
                 if ret = RETURNVALUE_NOERROR
                 then removeAll (uid (itemBase item)) (tempItems w)
                 else tempItems w\<rparr>)"
  using limbo inserted
  by (simp add: luaContainerAddItemEx_def Let_def removeTempItem_def)

theorem addItemEx_return_value_witness:
  "getParent (coin 5 30 VirtualCylinder) = VirtualCylinder
   \<and> luaContainerAddItemEx exampleGame (Some emptyBag) (Some (coin 5 30 VirtualCylinder))
         None None exampleWorld =
       (LuaNumber 0, Some (appendItem emptyBag (coin 5 30 (CylinderAt 1))),
        Some (coin 5 30 (CylinderAt 1)),
        \<lparr>reported = [], tempItems = [], clockReads = 0\<rparr>)
   \<and> luaContainerAddItemEx exampleGame (Some chest) (Some (coin 5 30 VirtualCylinder))
         None None exampleWorld =
       (LuaNumber 3, Some chest, Some (coin 5 30 VirtualCylinder),
        \<lparr>reported = [], tempItems = [5], clockReads = 0\<rparr>)"
proof -
  have limbo: "getParent (coin 5 30 VirtualCylinder) = VirtualCylinder"
    by (simp add: getParent_def coin_def)
  have accepted:
    "internalAddItem exampleGame emptyBag (coin 5 30 VirtualCylinder)
       (getNumber None (INDEX_WHEREEVER exampleGame)) (getNumber None 0) =
     (RETURNVALUE_NOERROR, appendItem emptyBag (coin 5 30 (CylinderAt 1)),
      coin 5 30 (CylinderAt 1))"
    by (simp add: exampleGame_def insertSpec_def getParent_def coin_def emptyBag_def size_c_def
        Let_def)
  have full:
    "internalAddItem exampleGame chest (coin 5 30 VirtualCylinder)
       (getNumber None (INDEX_WHEREEVER exampleGame)) (getNumber None 0) =
     (ContainerFull, chest, coin 5 30 VirtualCylinder)"
    by (simp add: exampleGame_def insertSpec_def getParent_def coin_def chest_def size_c_def)
  show ?thesis
    using limbo
      addItemEx_return_value [OF limbo accepted, of exampleWorld]
      addItemEx_return_value [OF limbo full, of exampleWorld]
    by (simp add: exampleWorld_def exampleGame_def coin_def)
qed

subsection \<open>Creating and inserting an item\<close>

text \<open>
  C6. For an \<open>addItem\<close> call on a container that is not null, with an item id that
  resolves (a number, or a name the catalog knows) and an item the factory makes: when
  the insertion returns no-error, the call pushes the item as a userdata and reports
  nothing; otherwise it pushes the boolean false and reports "Cannot add item to
  container, error code: '...'" with the message of the return value.
\<close>

theorem addItem_result:
  assumes resolvable: "isNumber arg2 \<or> readItemId e arg2 \<noteq> 0"
    and created:
      "CreateItem e (readItemId e arg2)
         (Some (stackCount (items e (readItemId e arg2)) (getNumber arg3 1))) = Some item"
    and inserted:
      "internalAddItem e c item (getNumber arg4 (INDEX_WHEREEVER e)) (getNumber arg5 0) =
         (ret, c', item')"
  shows "luaContainerAddItem e (Some c) arg2 arg3 arg4 arg5 w =
           (if ret = RETURNVALUE_NOERROR
            then (LuaUserdata item', Some c', w)
            else (LuaBoolean False, Some c',
                  w\<lparr>reported := reported w @
                     [''Cannot add item to container, error code: '' @ [CHR 0x27]
                        @ getReturnMessage e ret @ [CHR 0x27]]\<rparr>))"
  using resolvable created inserted
  by (auto simp: luaContainerAddItem_def Let_def reportErrorFunc_def)

theorem addItem_result_witness:
  "readItemId exampleGame (ItemName ''gold coin'') \<noteq> 0
   \<and> luaContainerAddItem exampleGame (Some emptyBag) (ItemName ''gold coin'') (Some 5)
         None None exampleWorld =
       (LuaUserdata (coin 7 5 (CylinderAt 1)),
        Some (appendItem emptyBag (coin 7 5 (CylinderAt 1))), exampleWorld)
   \<and> luaContainerAddItem exampleGame (Some chest) (ItemName ''gold coin'') (Some 5)
         None None exampleWorld =
       (LuaBoolean False, Some chest,
        \<lparr>reported = [''Cannot add item to container, error code: '' @ [CHR 0x27]
                       @ ''ContainerFull'' @ [CHR 0x27]],
         tempItems = [5], clockReads = 0\<rparr>)"
proof -
  have resolvable: "isNumber (ItemName ''gold coin'')
      \<or> readItemId exampleGame (ItemName ''gold coin'') \<noteq> 0"
    by (simp add: exampleGame_def)
  have created:
    "CreateItem exampleGame (readItemId exampleGame (ItemName ''gold coin''))
       (Some (stackCount (items exampleGame (readItemId exampleGame (ItemName ''gold coin'')))
          (getNumber (Some 5) 1))) = Some (coin 7 5 VirtualCylinder)"
    by (simp add: exampleGame_def createItemSpec_def exampleCapacity_def stackCount_def
        getNumber_def coin_def)
  have accepted:
    "internalAddItem exampleGame emptyBag (coin 7 5 VirtualCylinder)
       (getNumber None (INDEX_WHEREEVER exampleGame)) (getNumber None 0) =
     (RETURNVALUE_NOERROR, appendItem emptyBag (coin 7 5 (CylinderAt 1)),
      coin 7 5 (CylinderAt 1))"
    by (simp add: exampleGame_def insertSpec_def getParent_def coin_def emptyBag_def size_c_def
        Let_def)
  have full:
    "internalAddItem exampleGame chest (coin 7 5 VirtualCylinder)
       (getNumber None (INDEX_WHEREEVER exampleGame)) (getNumber None 0) =
     (ContainerFull, chest, coin 7 5 VirtualCylinder)"
    by (simp add: exampleGame_def insertSpec_def getParent_def coin_def chest_def size_c_def)
  show ?thesis
    using resolvable
      addItem_result [OF resolvable created accepted, of exampleWorld]
      addItem_result [OF resolvable created full, of exampleWorld]
    by (simp add: exampleWorld_def exampleGame_def)
qed

subsection \<open>The count of a created stack\<close>

lemma unat_ucast_16_32: "unat (ucast (x :: uint16_t) :: uint32_t) = unat x"
proof -
  have "unat x < 2 ^ 16"
    using unsigned_less [of x] by simp
  then have "unat x < 2 ^ 32"
    by simp
  then show ?thesis
    by (simp add: unsigned_ucast_eq take_bit_nat_eq_self)
qed

lemma unat_ucast_32_16: "unat (ucast (n :: uint32_t) :: uint16_t) = unat n mod 2 ^ 16"
  by (simp add: unsigned_ucast_eq take_bit_eq_mod)

lemma ucast_16_32_16: "(ucast (ucast (x :: uint16_t) :: uint32_t) :: uint16_t) = x"
  by (simp add: ucast_up_ucast_id is_up)

lemma unat_min_word: "unat (min (a :: uint16_t) b) = min (unat a) (unat b)"
  by (simp add: min_def word_le_nat_alt)

lemma unat_stackCount:
  "stackable it \<Longrightarrow> unat (stackCount it n) = min (unat n mod 2 ^ 16) (unat (stackSize it))"
  by (simp add: stackCount_def unat_ucast_16_32 unat_min_word unat_ucast_32_16)

lemma stackCount_idem: "stackCount it (stackCount it n) = stackCount it n"
  by (simp add: stackCount_def ucast_16_32_16)

lemma addItem_same_count:
  "stackCount (items e (readItemId e arg2)) n = stackCount (items e (readItemId e arg2)) m \<Longrightarrow>
   luaContainerAddItem e container arg2 (Some n) arg4 arg5 w =
     luaContainerAddItem e container arg2 (Some m) arg4 arg5 w"
  by (cases container) (simp_all add: luaContainerAddItem_def Let_def getNumber_def)

lemma addItem_outcome:
  "isNumber arg2 \<or> readItemId e arg2 \<noteq> 0 \<Longrightarrow>
   luaContainerAddItem e (Some c) arg2 arg3 arg4 arg5 w =
     addItemOutcome e c (readItemId e arg2)
       (stackCount (items e (readItemId e arg2)) (getNumber arg3 1)) arg4 arg5 w"
  by (auto simp: luaContainerAddItem_def Let_def reportErrorFunc_def
      split: option.splits prod.splits)



lemma exampleGame_coin:
  "stackable (items exampleGame (readItemId exampleGame (ItemNumber 3031)))"
  "isNumber (ItemNumber 3031) \<or> readItemId exampleGame (ItemNumber 3031) \<noteq> 0"
  "stackSize (items exampleGame (readItemId exampleGame (ItemNumber 3031))) = 100"
  "readItemId exampleGame (ItemNumber 3031) = 3031"
  by (simp_all add: exampleGame_def)

lemma exampleGame_outcome:
  "k \<noteq> 0 \<Longrightarrow> unat k < 2 ^ 16 \<Longrightarrow>
   addItemOutcome exampleGame emptyBag 3031 k None None exampleWorld =
     (LuaUserdata (coin 7 (ucast k) (CylinderAt 1)),
      Some (Container (base emptyBag) 8 8 [coin 7 (ucast k) (CylinderAt 1)] False 0),
      exampleWorld)"
  by (simp add: exampleGame_def createItemSpec_def exampleCapacity_def getNumber_def
      insertSpec_def getParent_def coin_def emptyBag_def size_c_def Let_def)


text \<open>
  C8. \<open>addItem\<close> reads the count as a 32-bit number, and for a stackable type the count
  the factory is asked for is the minimum of the count modulo \<open>2 ^ 16\<close> and
  \<open>stackSize\<close>: the call is in every respect the call that asks for that minimum. So
  a request for 65537 of a type that stacks up to 100 creates an item with the count 1,
  and a request for 65576 one with the count 40.
\<close>

theorem addItem_count_truncated:
  assumes stack: "stackable (items e (readItemId e arg2))"
    and resolvable: "isNumber arg2 \<or> readItemId e arg2 \<noteq> 0"
  shows "luaContainerAddItem e (Some c) arg2 (Some n) arg4 arg5 w =
           addItemOutcome e c (readItemId e arg2)
             (of_nat (min (unat n mod 2 ^ 16)
                (unat (stackSize (items e (readItemId e arg2)))))) arg4 arg5 w
     \<and> unat (stackCount (items e (readItemId e arg2)) n)
           = min (unat n mod 2 ^ 16) (unat (stackSize (items e (readItemId e arg2))))
     \<and> luaContainerAddItem e container arg2 (Some n) arg4 arg5 w =
         luaContainerAddItem e container arg2
           (Some (of_nat (min (unat n mod 2 ^ 16)
                    (unat (stackSize (items e (readItemId e arg2))))))) arg4 arg5 w"
proof -
  let ?it = "items e (readItemId e arg2)"
  let ?m = "min (unat n mod 2 ^ 16) (unat (stackSize ?it))"
  have count: "unat (stackCount ?it n) = ?m"
    using stack by (rule unat_stackCount)
  have "of_nat (unat (stackCount ?it n)) = stackCount ?it n"
    by simp
  with count have m: "of_nat ?m = stackCount ?it n"
    by simp
  then have "stackCount ?it n = stackCount ?it (of_nat ?m)"
    by (simp add: stackCount_idem)
  then have same: "luaContainerAddItem e container arg2 (Some n) arg4 arg5 w =
      luaContainerAddItem e container arg2 (Some (of_nat ?m)) arg4 arg5 w"
    by (rule addItem_same_count)
  have "luaContainerAddItem e (Some c) arg2 (Some n) arg4 arg5 w =
      addItemOutcome e c (readItemId e arg2) (stackCount ?it n) arg4 arg5 w"
    using addItem_outcome [OF resolvable, of c "Some n" arg4 arg5 w]
    by (simp add: getNumber_def)
  then have handed: "luaContainerAddItem e (Some c) arg2 (Some n) arg4 arg5 w =
      addItemOutcome e c (readItemId e arg2) (of_nat ?m) arg4 arg5 w"
    by (simp only: m)
  show ?thesis
    using handed count same by blast
qed

theorem addItem_count_truncated_witness:
  "stackable (items exampleGame (readItemId exampleGame (ItemNumber 3031)))
   \<and> readItemId exampleGame (ItemNumber 3031) \<noteq> 0
   \<and> stackSize (items exampleGame 3031) = 100
   \<and> unat (stackCount (items exampleGame 3031) 65537) = 1
   \<and> luaContainerAddItem exampleGame (Some emptyBag) (ItemNumber 3031) (Some 65537) None None
         exampleWorld =
       (LuaUserdata (coin 7 1 (CylinderAt 1)),
        Some (Container (base emptyBag) 8 8 [coin 7 1 (CylinderAt 1)] False 0),
        exampleWorld)
   \<and> luaContainerAddItem exampleGame (Some emptyBag) (ItemNumber 3031) (Some 65576) None None
         exampleWorld =
       (LuaUserdata (coin 7 40 (CylinderAt 1)),
        Some (Container (base emptyBag) 8 8 [coin 7 40 (CylinderAt 1)] False 0),
        exampleWorld)"
proof -
  have one: "addItemOutcome exampleGame emptyBag 3031 1 None None exampleWorld =
     (LuaUserdata (coin 7 1 (CylinderAt 1)),
      Some (Container (base emptyBag) 8 8 [coin 7 1 (CylinderAt 1)] False 0),
      exampleWorld)"
    using exampleGame_outcome [of 1] by simp
  have forty: "addItemOutcome exampleGame emptyBag 3031 40 None None exampleWorld =
     (LuaUserdata (coin 7 40 (CylinderAt 1)),
      Some (Container (base emptyBag) 8 8 [coin 7 40 (CylinderAt 1)] False 0),
      exampleWorld)"
    using exampleGame_outcome [of 40] by simp
  show ?thesis
    using one forty exampleGame_coin
      addItem_count_truncated [OF exampleGame_coin(1) exampleGame_coin(2), of emptyBag 65537
        None None exampleWorld "Some emptyBag"]
      addItem_count_truncated [OF exampleGame_coin(1) exampleGame_coin(2), of emptyBag 65576
        None None exampleWorld "Some emptyBag"]
    by simp
qed

subsection \<open>Calls on a null container\<close>

text \<open>
  C2, as the code has it. Every binding pushes nil when its container is null, and
  \<open>Container(uid)\<close> pushes nil when no container has the uid. Of the calls that change
  something, \<open>addItem\<close> alone reports an error ("Container is nullptr");
  \<open>addItemEx\<close> and \<open>registerReward\<close> report nothing and leave the world as it is.
\<close>

theorem null_container_rejected:
  "(getContainerByUID e u = None \<longrightarrow> luaContainerCreate e u = LuaNil)
   \<and> luaContainerGetSize None = LuaNil
   \<and> luaContainerGetMaxCapacity None = LuaNil
   \<and> luaContainerGetCapacity None = LuaNil
   \<and> luaContainerGetEmptySlots None recursive = LuaNil
   \<and> luaContainerGetItemHoldingCount e None = LuaNil
   \<and> luaContainerGetItem e None index = LuaNil
   \<and> luaContainerHasItem e None item = LuaNil
   \<and> luaContainerGetCorpseOwner None = LuaNil
   \<and> luaContainerGetItemCountById e None itemArg subType = LuaNil
   \<and> luaContainerGetContentDescription e None oldProtocol = LuaNil
   \<and> luaContainerGetItems None recursive = LuaNil
   \<and> luaContainerAddItem e None itemArg count slot flags w =
       (LuaNil, None, w\<lparr>reported := reported w @ [''Container is nullptr'']\<rparr>)
   \<and> luaContainerAddItemEx e None item slot flags w = (LuaNil, None, item, w)
   \<and> luaContainerRegisterReward e None w = Inr (LuaNil, None, w)"
  by (simp add: luaContainerCreate_def luaContainerGetSize_def luaContainerGetMaxCapacity_def
      luaContainerGetCapacity_def luaContainerGetEmptySlots_def
      luaContainerGetItemHoldingCount_def luaContainerGetItem_def luaContainerHasItem_def
      luaContainerGetCorpseOwner_def luaContainerGetItemCountById_def
      luaContainerGetContentDescription_def luaContainerGetItems_def luaContainerAddItem_def
      luaContainerAddItemEx_def luaContainerRegisterReward_def reportErrorFunc_def
      split: option.splits)

text \<open>
  \<open>addItemEx\<close> and \<open>registerReward\<close> on a null container, in a world without error
  reports: both push nil and the world after the call is the world before it, so no
  error has been reported.
\<close>

theorem null_container_report_counterexample:
  "luaContainerAddItemEx exampleGame None (Some (coin 5 30 VirtualCylinder)) None None
       exampleWorld =
     (LuaNil, None, Some (coin 5 30 VirtualCylinder), exampleWorld)
   \<and> luaContainerRegisterReward exampleGame None exampleWorld = Inr (LuaNil, None, exampleWorld)
   \<and> reported exampleWorld = []"
  by (simp add: luaContainerAddItemEx_def luaContainerRegisterReward_def exampleWorld_def)

theorem null_container_rejected_witness:
  "getContainerByUID exampleGame 4 = None
   \<and> luaContainerCreate exampleGame 4 = LuaNil
   \<and> luaContainerAddItem exampleGame None (ItemNumber 3031) (Some 5) None None exampleWorld =
       (LuaNil, None, \<lparr>reported = [''Container is nullptr''], tempItems = [5], clockReads = 0\<rparr>)"
proof -
  have absent: "getContainerByUID exampleGame 4 = None"
    by (simp add: exampleGame_def)
  show ?thesis
    using absent
      null_container_rejected [where e = exampleGame and u = 4 and itemArg = "ItemNumber 3031"
        and count = "Some 5" and slot = None and flags = None and w = exampleWorld]
    by (simp add: exampleWorld_def)
qed

text \<open>
  C7, as the code has it. When the container passed to \<open>registerReward\<close> is null, the
  call pushes nil, not the boolean false; it reports nothing, makes no item, does not
  read the clock and leaves the world as it is.
\<close>

theorem registerReward_null:
  "luaContainerRegisterReward e None w = Inr (LuaNil, None, w)"
  by (simp add: luaContainerRegisterReward_def)

text \<open>The value pushed for a null container is nil, which is not the boolean false.\<close>

theorem registerReward_null_counterexample:
  "luaContainerRegisterReward exampleGame None exampleWorld
     \<noteq> Inr (LuaBoolean False, None, exampleWorld)"
  by (simp add: luaContainerRegisterReward_def)

end
